theory Spec2Isabelle
  imports Main "HOL-Library.Multiset"
begin

section \<open>Protocol constants\<close>

text \<open>
  The numeric constants of the \<^verbatim>\<open>discord-interactions\<close> package that \<^verbatim>\<open>app.ts\<close> imports:
  \<^verbatim>\<open>InteractionType\<close>, \<^verbatim>\<open>InteractionResponseType\<close>, \<^verbatim>\<open>InteractionResponseFlags\<close> and
  \<^verbatim>\<open>ButtonStyleTypes\<close>.
\<close>

definition PING :: int where "PING = 1"
definition APPLICATION_COMMAND :: int where "APPLICATION_COMMAND = 2"
definition MESSAGE_COMPONENT :: int where "MESSAGE_COMPONENT = 3"

definition PONG :: int where "PONG = 1"
definition CHANNEL_MESSAGE_WITH_SOURCE :: int where "CHANNEL_MESSAGE_WITH_SOURCE = 4"

definition EPHEMERAL :: int where "EPHEMERAL = 64"
definition PRIMARY :: int where "PRIMARY = 1"

text \<open>
  The interaction contexts of the platform, as the command registration lists them in
  \<^verbatim>\<open>contexts: [0, 1, 2]\<close>: 0 is a server (guild), 1 the direct-message channel with the
  bot, 2 a private channel (a group DM). The comment of \<^verbatim>\<open>app.ts\<close> says the same:
  "User ID is in user field for (G)DMs, and member for servers", next to the test
  \<^verbatim>\<open>context === 0\<close>.
\<close>

definition GUILD :: int where "GUILD = 0"
definition BOT_DM :: int where "BOT_DM = 1"
definition PRIVATE_CHANNEL :: int where "PRIVATE_CHANNEL = 2"

definition isDM :: "int option \<Rightarrow> bool" where
  "isDM c = (c = Some BOT_DM \<or> c = Some PRIVATE_CHANNEL)"


section \<open>Data model of \<^verbatim>\<open>app.ts\<close>\<close>

text \<open>\<^verbatim>\<open>interface ActiveGame { id: string; objectName: string; }\<close>\<close>

record ActiveGame =
  ag_id :: string
  ag_objectName :: string

text \<open>
  The body of a \<^verbatim>\<open>DiscordInteractionRequest\<close>. An optional field is an \<open>option\<close>;
  \<^verbatim>\<open>member?: {user: {id}}\<close> and \<^verbatim>\<open>user?: {id}\<close> and \<^verbatim>\<open>message?: {id}\<close> each carry one
  string, and \<^verbatim>\<open>options?: Array<{value: string}>\<close> is the list of its values.
\<close>

text \<open>
  What the expression \<^verbatim>\<open>activeGames[gameId]\<close> can evaluate to at run time. The declared
  type promises an \<^verbatim>\<open>ActiveGame\<close>, but \<^verbatim>\<open>activeGames\<close> is created as a plain \<^verbatim>\<open>{}\<close> and so
  inherits from \<^verbatim>\<open>Object.prototype\<close>: a lookup yields \<^verbatim>\<open>undefined\<close>, a game, a string (a field
  of a game that has become the prototype), one of the functions of \<^verbatim>\<open>Object.prototype\<close>
  (by its name), or \<^verbatim>\<open>Object.prototype\<close> itself.
\<close>

datatype jsValue =
    Undefined
  | Game ActiveGame
  | Str string
  | Builtin string
  | ObjectPrototype

text \<open>The test \<^verbatim>\<open>if (v)\<close>: \<^verbatim>\<open>undefined\<close> and the empty string are falsy, every object is truthy.\<close>

fun truthyValue :: "jsValue \<Rightarrow> bool" where
  "truthyValue Undefined = False"
| "truthyValue (Str s) = (s \<noteq> [])"
| "truthyValue _ = True"

text \<open>
  The data properties of \<^verbatim>\<open>Object.prototype\<close>, all of them functions. Its one accessor
  property, \<^verbatim>\<open>__proto__\<close>, is treated apart: reading it gives the prototype of the object,
  assigning to it replaces that prototype.
\<close>

definition objectPrototypeNames :: "string list" where
  "objectPrototypeNames =
     [''constructor'', ''__defineGetter__'', ''__defineSetter__'', ''hasOwnProperty'',
      ''__lookupGetter__'', ''__lookupSetter__'', ''isPrototypeOf'', ''propertyIsEnumerable'',
      ''toString'', ''valueOf'', ''toLocaleString'']"

record requestData =
  d_name :: "string option"
  d_custom_id :: "string option"
  d_values :: "string list option"
  d_options :: "string list option"

record requestBody =
  b_id :: string
  b_type :: int
  b_data :: requestData
  b_context :: "int option"
  b_member :: "string option"
  b_user :: "string option"
  b_token :: "string option"
  b_message :: "string option"


section \<open>JavaScript values\<close>

text \<open>
  \<^verbatim>\<open>!v\<close> on a value of type \<^verbatim>\<open>string | undefined\<close> is true for \<^verbatim>\<open>undefined\<close> and for the
  empty string. \<open>nonEmpty v\<close> is \<open>None\<close> exactly when \<^verbatim>\<open>!v\<close>.
\<close>

definition nonEmpty :: "string option \<Rightarrow> string option" where
  "nonEmpty v = (case v of None \<Rightarrow> None | Some s \<Rightarrow> (if s = [] then None else Some s))"

text \<open>A value interpolated into a template literal: \<^verbatim>\<open>undefined\<close> prints as its name.\<close>

definition str :: "string option \<Rightarrow> string" where
  "str v = (case v of None \<Rightarrow> ''undefined'' | Some s \<Rightarrow> s)"

text \<open>\<^verbatim>\<open>xs?.[0]\<close>\<close>

definition firstOf :: "'a list option \<Rightarrow> 'a option" where
  "firstOf xs = (case xs of None \<Rightarrow> None | Some [] \<Rightarrow> None | Some (x # _) \<Rightarrow> Some x)"

text \<open>\<^verbatim>\<open>s.startsWith(p)\<close>\<close>

definition startsWith :: "string \<Rightarrow> string \<Rightarrow> bool" where
  "startsWith s p = (take (length p) s = p)"

text \<open>\<^verbatim>\<open>s.replace(p, r)\<close> with a string pattern: the first occurrence of \<open>p\<close> only.\<close>

fun replace :: "string \<Rightarrow> string \<Rightarrow> string \<Rightarrow> string" where
  "replace [] p r = (if p = [] then r else [])"
| "replace (c # cs) p r =
     (if take (length p) (c # cs) = p then r @ drop (length p) (c # cs)
      else c # replace cs p r)"


section \<open>Responses and effects\<close>

datatype httpMethod = DELETE | PATCH

datatype component =
    ActionRow "component list"
  | Button string string int
  | StringSelect string "string list"

text \<open>
  What \<^verbatim>\<open>res.send\<close> and \<^verbatim>\<open>res.status(400).json\<close> are given: \<^verbatim>\<open>{type}\<close>,
  \<^verbatim>\<open>{type, data: {content, flags?, components?}}\<close> or \<^verbatim>\<open>{error}\<close>.
\<close>

datatype payload =
    TypeOnly int
  | Message int string "int option" "component list option"
  | ErrorJson string

datatype logarg = LStr string | LNum int | LErr string

text \<open>
  The observable actions of the handler, in the order they happen: an HTTP response
  (status and payload), a line on \<^verbatim>\<open>console.error\<close>, a call of \<^verbatim>\<open>DiscordRequest\<close>
  (endpoint, HTTP verb, and the content and components of the body when there is one).
\<close>

datatype effect =
    Send nat payload
  | ConsoleError "logarg list"
  | Request string httpMethod "(string \<times> component list) option"

fun isPatch :: "effect \<Rightarrow> bool" where
  "isPatch (Request _ PATCH _) = True"
| "isPatch _ = False"


section \<open>The Choice Catalog and the helpers of \<^verbatim>\<open>game.js\<close>\<close>

text \<open>
  Modelled from the spec: the Choice Catalog of \<^verbatim>\<open>game.js\<close> (\<^verbatim>\<open>getRPSChoices\<close> and the table
  behind \<^verbatim>\<open>getResult\<close>), which is not among the sources. The spec gives it as "the
  enumerable set of game objects and the pairwise beats relation"; \<open>(a, b)\<close> in
  \<open>beatsTable\<close> reads "\<open>a\<close> beats \<open>b\<close>".
\<close>

record catalog =
  choices :: "string list"
  beatsTable :: "(string \<times> string) list"

definition beats :: "catalog \<Rightarrow> string \<Rightarrow> string \<Rightarrow> bool" where
  "beats cat a b = ((a, b) \<in> set (beatsTable cat))"

text \<open>
  Modelled from the spec: catalog validity, "for every pair of distinct choices, exactly
  one direction of the beats relation holds".
\<close>

definition wellFormed :: "catalog \<Rightarrow> bool" where
  "wellFormed cat =
     list_all (\<lambda>a. list_all (\<lambda>b. a = b \<or> (beats cat a b \<noteq> beats cat b a)) (choices cat))
       (choices cat)"

datatype relation = WIN | LOSE | TIE

datatype resolveError = IllFormedCatalog

record outcome =
  winner :: "string option"
  relation :: relation

text \<open>
  Modelled from the spec: the Outcome Resolver of \<^verbatim>\<open>game.js\<close>, which is not among the
  sources. "If \<open>a == b\<close>, TIE; else consult the Beats relation table; exactly one of
  \<open>a beats b\<close> / \<open>b beats a\<close> holds for any valid catalog, else this is a
  catalog-configuration defect (raise \<open>IllFormedCatalog\<close>)".
\<close>

definition resolve :: "catalog \<Rightarrow> string \<Rightarrow> string \<Rightarrow> resolveError + outcome" where
  "resolve cat a b =
     (if a = b then Inr \<lparr>winner = None, relation = TIE\<rparr>
      else if beats cat a b \<and> \<not> beats cat b a then Inr \<lparr>winner = Some a, relation = WIN\<rparr>
      else if beats cat b a \<and> \<not> beats cat a b then Inr \<lparr>winner = Some b, relation = LOSE\<rparr>
      else Inl IllFormedCatalog)"

text \<open>The canonical three-choice catalog of the spec.\<close>

definition rps :: catalog where
  "rps = \<lparr>choices = [''rock'', ''paper'', ''scissors''],
          beatsTable = [(''rock'', ''scissors''), (''paper'', ''rock''), (''scissors'', ''paper'')]\<rparr>"

text \<open>
  Modelled from the spec: \<^verbatim>\<open>getShuffledOptions\<close> of \<^verbatim>\<open>game.js\<close>, which is not among the
  sources: "the randomized ordering of choices from the Choice Catalog". The random
  draws are a list of numbers given from outside; each choice is inserted at the drawn
  position of the choices shuffled so far.
\<close>

definition insertAt :: "nat \<Rightarrow> 'a \<Rightarrow> 'a list \<Rightarrow> 'a list" where
  "insertAt n x xs = take n xs @ x # drop n xs"

fun shuffle :: "nat list \<Rightarrow> 'a list \<Rightarrow> 'a list" where
  "shuffle rs [] = []"
| "shuffle [] (x # xs) = x # shuffle [] xs"
| "shuffle (r # rs) (x # xs) = insertAt (r mod Suc (length xs)) x (shuffle rs xs)"

definition getShuffledOptions :: "nat list \<Rightarrow> catalog \<Rightarrow> string list" where
  "getShuffledOptions draws cat = shuffle draws (choices cat)"


section \<open>The environment of the handler\<close>

text \<open>
  What the handler takes from outside \<^verbatim>\<open>app.ts\<close>: \<^verbatim>\<open>process.env.APP_ID\<close>, the emoji
  \<^verbatim>\<open>getRandomEmoji()\<close> returns, \<^verbatim>\<open>getResult\<close> of \<^verbatim>\<open>game.js\<close> (a parameter: the handler only
  passes its string on; its first argument is whatever \<^verbatim>\<open>activeGames[gameId]\<close> evaluated
  to), the catalog and the random draws behind \<^verbatim>\<open>getShuffledOptions()\<close>,
  and whether the network call of \<^verbatim>\<open>DiscordRequest\<close> is rejected (\<open>Some err\<close>) or not.
\<close>

record env =
  APP_ID :: "string option"
  getRandomEmoji :: string
  getResult :: "jsValue \<Rightarrow> ActiveGame \<Rightarrow> string"
  gameCatalog :: catalog
  draws :: "nat list"
  requestError :: "string \<Rightarrow> httpMethod \<Rightarrow> string option"


section \<open>Statements with early return and exceptions\<close>

text \<open>
  The state of the process is the global \<^verbatim>\<open>activeGames\<close>, declared as a
  \<^verbatim>\<open>Record<string, ActiveGame>\<close> and created as \<^verbatim>\<open>{}\<close>, together with the effects performed
  so far. The object is its own properties, a map from key to game (\<open>activeGames\<close>), and
  its prototype: \<open>None\<close> for \<^verbatim>\<open>Object.prototype\<close>, which it has from the start, and
  \<open>Some p\<close> once a game \<open>p\<close> has been assigned to the key \<^verbatim>\<open>__proto__\<close> (the game's own
  prototype is \<^verbatim>\<open>Object.prototype\<close>).
  A statement ends normally, by \<^verbatim>\<open>return\<close>, or by throwing.
\<close>

datatype ctl = Normal | Returned | Thrown string

record hstate =
  activeGames :: "string \<rightharpoonup> ActiveGame"
  prototype :: "ActiveGame option"
  trace :: "effect list"

type_synonym stmt = "hstate \<Rightarrow> ctl \<times> hstate"

definition skip :: stmt where
  "skip st = (Normal, st)"

text \<open>\<^verbatim>\<open>s1; s2\<close>: the second statement runs only when the first ends normally.\<close>

definition seq :: "stmt \<Rightarrow> stmt \<Rightarrow> stmt" where
  "seq s1 s2 st = (case s1 st of (c, st') \<Rightarrow> (case c of Normal \<Rightarrow> s2 st' | _ \<Rightarrow> (c, st')))"

text \<open>\<^verbatim>\<open>return e;\<close>: evaluate \<open>e\<close>, then leave the handler.\<close>

definition return_of :: "stmt \<Rightarrow> stmt" where
  "return_of s st = (case s st of (c, st') \<Rightarrow> (case c of Normal \<Rightarrow> (Returned, st') | _ \<Rightarrow> (c, st')))"

text \<open>A guarded block with its handler: \<^verbatim>\<open>catch (err) { handler }\<close> runs when the body throws.\<close>

definition tryCatch :: "stmt \<Rightarrow> (string \<Rightarrow> stmt) \<Rightarrow> stmt" where
  "tryCatch body handler st =
     (case body st of (c, st') \<Rightarrow> (case c of Thrown err \<Rightarrow> handler err st' | _ \<Rightarrow> (c, st')))"

definition emit :: "effect \<Rightarrow> stmt" where
  "emit e st = (Normal, st\<lparr>trace := trace st @ [e]\<rparr>)"

text \<open>\<^verbatim>\<open>res.send(p)\<close> answers with status 200, \<^verbatim>\<open>res.status(n).json(p)\<close> with status \<open>n\<close>.\<close>

definition res_send :: "nat \<Rightarrow> payload \<Rightarrow> stmt" where
  "res_send status p = emit (Send status p)"

definition console_error :: "logarg list \<Rightarrow> stmt" where
  "console_error args = emit (ConsoleError args)"

text \<open>\<^verbatim>\<open>await DiscordRequest(endpoint, options)\<close>: the call is made, and may be rejected.\<close>

definition DiscordRequest ::
  "env \<Rightarrow> string \<Rightarrow> httpMethod \<Rightarrow> (string \<times> component list) option \<Rightarrow> stmt" where
  "DiscordRequest e endpoint m body st =
     ((case requestError e endpoint m of None \<Rightarrow> Normal | Some err \<Rightarrow> Thrown err),
      st\<lparr>trace := trace st @ [Request endpoint m body]\<rparr>)"

text \<open>
  The value of \<^verbatim>\<open>activeGames[k]\<close>: the own property when there is one, else what the
  prototype chain gives. Through \<^verbatim>\<open>__proto__\<close> the chain gives the prototype itself; a game
  that is the prototype gives its two fields; \<^verbatim>\<open>Object.prototype\<close> gives its functions.
\<close>

definition fromObjectPrototype :: "string \<Rightarrow> jsValue" where
  "fromObjectPrototype k = (if k \<in> set objectPrototypeNames then Builtin k else Undefined)"

definition inheritedValue :: "ActiveGame option \<Rightarrow> string \<Rightarrow> jsValue" where
  "inheritedValue proto k =
     (case proto of
        None \<Rightarrow> (if k = ''__proto__'' then ObjectPrototype else fromObjectPrototype k)
      | Some p \<Rightarrow>
          (if k = ''__proto__'' then Game p
           else if k = ''id'' then Str (ag_id p)
           else if k = ''objectName'' then Str (ag_objectName p)
           else fromObjectPrototype k))"

definition getGame :: "hstate \<Rightarrow> string \<Rightarrow> jsValue" where
  "getGame st k =
     (case activeGames st k of
        Some g \<Rightarrow> Game g
      | None \<Rightarrow> inheritedValue (prototype st) k)"

text \<open>
  \<^verbatim>\<open>activeGames[k] = g\<close>: an own property \<open>k\<close> is overwritten; otherwise the key \<^verbatim>\<open>__proto__\<close>
  reaches the setter of \<^verbatim>\<open>Object.prototype\<close>, which makes \<open>g\<close> the prototype and creates no
  property, and every other key becomes an own property. \<^verbatim>\<open>delete activeGames[k]\<close> removes
  an own property and nothing else.
\<close>

definition assignGame :: "string \<Rightarrow> ActiveGame \<Rightarrow> hstate \<Rightarrow> hstate" where
  "assignGame k g st =
     (if k = ''__proto__'' \<and> activeGames st k = None then st\<lparr>prototype := Some g\<rparr>
      else st\<lparr>activeGames := (activeGames st)(k \<mapsto> g)\<rparr>)"

definition setGame :: "string \<Rightarrow> ActiveGame \<Rightarrow> stmt" where
  "setGame k g st = (Normal, assignGame k g st)"

definition deleteGame :: "string \<Rightarrow> stmt" where
  "deleteGame k st = (Normal, st\<lparr>activeGames := (activeGames st)(k := None)\<rparr>)"

text \<open>
  The endpoint both component branches build:
  \<^verbatim>\<open>`webhooks/${process.env.APP_ID}/${req.body.token}/messages/${req.body.message?.id}`\<close>
\<close>

definition messageEndpoint :: "env \<Rightarrow> requestBody \<Rightarrow> string" where
  "messageEndpoint e req =
     ''webhooks/'' @ str (APP_ID e) @ ''/'' @ str (b_token req) @ ''/messages/'' @ str (b_message req)"


section \<open>The handler of \<^verbatim>\<open>POST /interactions\<close>\<close>

text \<open>The "challenge" command, lines 90 to 129 of \<^verbatim>\<open>app.ts\<close>, entered when \<^verbatim>\<open>id\<close> is truthy.\<close>

definition challenge_branch :: "requestBody \<Rightarrow> stmt" where
  "challenge_branch req =
     (let userId = (if b_context req = Some 0 then b_member req else b_user req);
          objectName = firstOf (d_options (b_data req))
      in case nonEmpty userId of
           None \<Rightarrow> return_of (res_send 400 (ErrorJson ''invalid request''))
         | Some u \<Rightarrow>
            (case nonEmpty objectName of
               None \<Rightarrow> return_of (res_send 400 (ErrorJson ''invalid request''))
             | Some obj \<Rightarrow>
                 seq (setGame (b_id req) \<lparr>ag_id = u, ag_objectName = obj\<rparr>)
                     (return_of (res_send 200
                        (Message CHANNEL_MESSAGE_WITH_SOURCE
                           (''Rock papers scissors challenge from <@'' @ u @ ''>'')
                           None
                           (Some [ActionRow
                              [Button (''accept_button_'' @ b_id req) ''Accept'' PRIMARY]]))))))"

text \<open>The slash commands, lines 75 to 133.\<close>

definition command_branch :: "env \<Rightarrow> requestBody \<Rightarrow> stmt" where
  "command_branch e req =
     (let name = d_name (b_data req) in
      if name = Some ''test'' then
        return_of (res_send 200
          (Message CHANNEL_MESSAGE_WITH_SOURCE (''hello world '' @ getRandomEmoji e) None None))
      else if name = Some ''challenge'' \<and> b_id req \<noteq> [] then challenge_branch req
      else seq (console_error [LStr (''unknown command: '' @ str name)])
               (return_of (res_send 400 (ErrorJson ''unknown command''))))"

text \<open>The accept button, lines 139 to 170.\<close>

definition accept_branch :: "env \<Rightarrow> requestBody \<Rightarrow> string \<Rightarrow> stmt" where
  "accept_branch e req componentId =
     (let gameId = replace componentId ''accept_button_'' [];
          endpoint = messageEndpoint e req
      in tryCatch
           (seq (res_send 200
                   (Message CHANNEL_MESSAGE_WITH_SOURCE ''What is your object of choice?''
                      (Some EPHEMERAL)
                      (Some [ActionRow
                         [StringSelect (''select_choice_'' @ gameId)
                            (getShuffledOptions (draws e) (gameCatalog e))]])))
                (DiscordRequest e endpoint DELETE None))
           (\<lambda>err. console_error [LStr ''Error sending message:'', LErr err]))"

text \<open>The choice menu, lines 171 to 223.\<close>

definition select_branch :: "env \<Rightarrow> requestBody \<Rightarrow> string \<Rightarrow> stmt" where
  "select_branch e req componentId st =
     (let gameId = replace componentId ''select_choice_'' [] in
      if \<not> truthyValue (getGame st gameId) then (Normal, st)
      else
          (let userId = (if b_context req = Some 0 then b_member req else b_user req) in
           case nonEmpty userId of
             None \<Rightarrow> return_of (res_send 400 (ErrorJson ''invalid user'')) st
           | Some u \<Rightarrow>
              (let objectName = firstOf (d_values (b_data req)) in
               case nonEmpty objectName of
                 None \<Rightarrow> return_of (res_send 400 (ErrorJson ''invalid choice'')) st
               | Some obj \<Rightarrow>
                  (let resultStr = getResult e (getGame st gameId) \<lparr>ag_id = u, ag_objectName = obj\<rparr>;
                       endpoint = messageEndpoint e req
                   in seq (deleteGame gameId)
                        (tryCatch
                           (seq (return_of (res_send 200
                                   (Message CHANNEL_MESSAGE_WITH_SOURCE resultStr None None)))
                                (DiscordRequest e endpoint PATCH
                                   (Some (''Nice choice '' @ getRandomEmoji e, []))))
                           (\<lambda>err. console_error [LStr ''Error sending message:'', LErr err]))
                        st))))"

text \<open>The message components, lines 135 to 225: the two branches, then \<^verbatim>\<open>return;\<close>.\<close>

definition component_branch :: "env \<Rightarrow> requestBody \<Rightarrow> stmt" where
  "component_branch e req =
     seq (case d_custom_id (b_data req) of
            None \<Rightarrow> skip
          | Some componentId \<Rightarrow>
              if startsWith componentId ''accept_button_'' then accept_branch e req componentId
              else if startsWith componentId ''select_choice_'' then select_branch e req componentId
              else skip)
         (return_of skip)"

definition interactions :: "env \<Rightarrow> requestBody \<Rightarrow> stmt" where
  "interactions e req =
     (if b_type req = PING then return_of (res_send 200 (TypeOnly PONG))
      else if b_type req = APPLICATION_COMMAND then command_branch e req
      else if b_type req = MESSAGE_COMPONENT then component_branch e req
      else seq (console_error [LStr ''unknown interaction type'', LNum (b_type req)])
               (return_of (res_send 400 (ErrorJson ''unknown interaction type''))))"

text \<open>
  What one call of the handler adds to the trace, the store it leaves, and how it ends.
\<close>

definition effectsOf :: "env \<Rightarrow> requestBody \<Rightarrow> hstate \<Rightarrow> effect list" where
  "effectsOf e req st = drop (length (trace st)) (trace (snd (interactions e req st)))"

definition gamesAfter :: "env \<Rightarrow> requestBody \<Rightarrow> hstate \<Rightarrow> (string \<rightharpoonup> ActiveGame)" where
  "gamesAfter e req st = activeGames (snd (interactions e req st))"

definition protoAfter :: "env \<Rightarrow> requestBody \<Rightarrow> hstate \<Rightarrow> ActiveGame option" where
  "protoAfter e req st = prototype (snd (interactions e req st))"

definition outcomeOf :: "env \<Rightarrow> requestBody \<Rightarrow> hstate \<Rightarrow> ctl" where
  "outcomeOf e req st = fst (interactions e req st)"

text \<open>The ephemeral menu the accept branch answers with, for a game id.\<close>

definition acceptMenu :: "env \<Rightarrow> string \<Rightarrow> effect" where
  "acceptMenu e gameId =
     Send 200 (Message CHANNEL_MESSAGE_WITH_SOURCE ''What is your object of choice?''
        (Some EPHEMERAL)
        (Some [ActionRow [StringSelect (''select_choice_'' @ gameId)
                 (getShuffledOptions (draws e) (gameCatalog e))]]))"


section \<open>The context rule, and example inputs\<close>

text \<open>
  The rule both branches of \<^verbatim>\<open>app.ts\<close> write out for the acting user,
  \<^verbatim>\<open>context === 0 ? req.body.member?.user.id : req.body.user?.id\<close>: the member field in a
  server, the user field everywhere else.
\<close>

definition actingUser :: "requestBody \<Rightarrow> string option" where
  "actingUser req = (if b_context req = Some GUILD then b_member req else b_user req)"

text \<open>
  The rule in the words of the spec, for comparison: "DM context reads
  \<^verbatim>\<open>member.user.id\<close>-equivalent field; otherwise reads \<^verbatim>\<open>user.id\<close>-equivalent field".
\<close>

definition specUserId :: "requestBody \<Rightarrow> string option" where
  "specUserId req = (if isDM (b_context req) then b_member req else b_user req)"

text \<open>
  Concrete inputs: an environment whose network calls succeed and one whose calls are
  rejected, a store with no game and one with the game \<open>m1\<close> of user \<open>U1\<close>, and one request
  of each kind.
\<close>

definition exampleEnv :: env where
  "exampleEnv = \<lparr>APP_ID = Some ''app'', getRandomEmoji = '':)'',
     getResult = (\<lambda>v p2. (case v of Game p1 \<Rightarrow> ag_id p1 @ '' '' @ ag_objectName p1 | _ \<Rightarrow> ''?'')
                    @ '' vs '' @ ag_id p2 @ '' '' @ ag_objectName p2),
     gameCatalog = rps, draws = [2, 0, 1], requestError = (\<lambda>_ _. None)\<rparr>"

definition failingEnv :: env where
  "failingEnv = exampleEnv\<lparr>requestError := (\<lambda>_ _. Some ''404'')\<rparr>"

definition emptyState :: hstate where
  "emptyState = \<lparr>activeGames = Map.empty, prototype = None, trace = []\<rparr>"

definition stateWithGame :: hstate where
  "stateWithGame = \<lparr>activeGames = [''m1'' \<mapsto> \<lparr>ag_id = ''U1'', ag_objectName = ''rock''\<rparr>],
     prototype = None, trace = []\<rparr>"

definition challengeReq :: requestBody where
  "challengeReq = \<lparr>b_id = ''m1'', b_type = 2,
     b_data = \<lparr>d_name = Some ''challenge'', d_custom_id = None, d_values = None, d_options = Some [''rock'']\<rparr>,
     b_context = Some 0, b_member = Some ''U1'', b_user = None, b_token = Some ''tok'', b_message = None\<rparr>"

definition dmChallengeReq :: requestBody where
  "dmChallengeReq = challengeReq\<lparr>b_context := Some 1, b_member := None, b_user := Some ''U1''\<rparr>"

definition acceptReq :: requestBody where
  "acceptReq = \<lparr>b_id = ''i2'', b_type = 3,
     b_data = \<lparr>d_name = None, d_custom_id = Some ''accept_button_m1'', d_values = None, d_options = None\<rparr>,
     b_context = Some 0, b_member = Some ''U2'', b_user = None, b_token = Some ''tok'', b_message = Some ''msg1''\<rparr>"

definition selectReq :: requestBody where
  "selectReq = \<lparr>b_id = ''i3'', b_type = 3,
     b_data = \<lparr>d_name = None, d_custom_id = Some ''select_choice_m1'', d_values = Some [''scissors''], d_options = None\<rparr>,
     b_context = Some 0, b_member = Some ''U2'', b_user = None, b_token = Some ''tok'', b_message = Some ''msg2''\<rparr>"

definition selectNoUserReq :: requestBody where
  "selectNoUserReq = selectReq\<lparr>b_member := None\<rparr>"

definition unknownComponentReq :: requestBody where
  "unknownComponentReq = selectReq\<lparr>b_data := (b_data selectReq)\<lparr>d_custom_id := Some ''foo''\<rparr>\<rparr>"

text \<open>Requests whose identifiers are names that every plain object inherits.\<close>

definition protoChallengeReq :: requestBody where
  "protoChallengeReq = challengeReq\<lparr>b_id := ''__proto__''\<rparr>"

definition protoSelectReq :: requestBody where
  "protoSelectReq = selectReq\<lparr>b_data := (b_data selectReq)\<lparr>d_custom_id := Some ''select_choice___proto__''\<rparr>\<rparr>"

definition constructorSelectReq :: requestBody where
  "constructorSelectReq =
     selectReq\<lparr>b_data := (b_data selectReq)\<lparr>d_custom_id := Some ''select_choice_constructor''\<rparr>\<rparr>"

definition toStringAcceptReq :: requestBody where
  "toStringAcceptReq =
     acceptReq\<lparr>b_data := (b_data acceptReq)\<lparr>d_custom_id := Some ''accept_button_toString''\<rparr>\<rparr>"

definition toStringSelectReq :: requestBody where
  "toStringSelectReq =
     selectReq\<lparr>b_data := (b_data selectReq)\<lparr>d_custom_id := Some ''select_choice_toString''\<rparr>\<rparr>"

text \<open>
  A key that no plain object inherits anything under, whatever game its prototype may
  have become. The identifiers the platform issues, strings of digits, are such keys.
\<close>

definition ordinaryKey :: "string \<Rightarrow> bool" where
  "ordinaryKey k = (k \<notin> set (''__proto__'' # ''id'' # ''objectName'' # objectPrototypeNames))"

definition unknownTypeReq :: requestBody where
  "unknownTypeReq = challengeReq\<lparr>b_type := 9\<rparr>"

definition unknownCommandReq :: requestBody where
  "unknownCommandReq = challengeReq\<lparr>b_data := (b_data challengeReq)\<lparr>d_name := Some ''dance''\<rparr>\<rparr>"


section \<open>Strings and shuffling\<close>

lemmas stmt_defs = seq_def return_of_def tryCatch_def emit_def res_send_def
  console_error_def DiscordRequest_def setGame_def deleteGame_def skip_def


lemmas example_defs = exampleEnv_def failingEnv_def emptyState_def stateWithGame_def challengeReq_def
  dmChallengeReq_def acceptReq_def selectReq_def selectNoUserReq_def unknownComponentReq_def
  unknownTypeReq_def unknownCommandReq_def protoChallengeReq_def protoSelectReq_def
  constructorSelectReq_def toStringAcceptReq_def toStringSelectReq_def

lemmas const_defs = PING_def APPLICATION_COMMAND_def MESSAGE_COMPONENT_def GUILD_def BOT_DM_def
  PRIVATE_CHANNEL_def

lemmas obs_defs = effectsOf_def gamesAfter_def protoAfter_def outcomeOf_def

text \<open>Removing a prefix the string starts with leaves the rest: the game id.\<close>

lemma replace_prefix: "p \<noteq> [] \<Longrightarrow> replace (p @ s) p r = r @ s"
  by (cases p) simp_all

lemma startsWith_append: "startsWith (p @ s) p"
  by (simp add: startsWith_def)

lemma startsWith_split: "startsWith s p \<Longrightarrow> s = p @ drop (length p) s"
  unfolding startsWith_def by (metis append_take_drop_id)

text \<open>
  A custom id that starts with a prefix is that prefix followed by the game id that
  \<open>replace\<close> extracts, so the branches may be stated for ids of the form \<open>prefix @ g\<close>.
\<close>

lemma gameId_of_prefixed: "p \<noteq> [] \<Longrightarrow> startsWith cid p \<Longrightarrow> cid = p @ replace cid p []"
  using replace_prefix [of p "drop (length p) cid" "[]"] startsWith_split [of cid p] by simp

lemma select_not_accept: "startsWith s ''select_choice_'' \<Longrightarrow> \<not> startsWith s ''accept_button_''"
  unfolding startsWith_def by auto

text \<open>Whatever the draws, the shuffled list has the elements of the given one.\<close>

lemma mset_insertAt: "mset (insertAt n x xs) = add_mset x (mset xs)"
  unfolding insertAt_def
  by (metis append_take_drop_id mset.simps(2) union_mset_add_mset_right mset_append)

lemma mset_shuffle: "mset (shuffle rs xs) = mset xs"
  by (induction rs xs rule: shuffle.induct) (simp_all add: mset_insertAt)


section \<open>The store object\<close>

text \<open>A stored game is what a lookup of its key finds; an ordinary key inherits nothing.\<close>

lemma getGame_own: "activeGames st k = Some g \<Longrightarrow> getGame st k = Game g"
  by (simp add: getGame_def)

lemma getGame_ordinary:
  "ordinaryKey k \<Longrightarrow> activeGames st k = None \<Longrightarrow> getGame st k = Undefined"
  by (auto simp: ordinaryKey_def getGame_def inheritedValue_def fromObjectPrototype_def
      split: option.splits)

lemma assignGame_ordinary:
  "k \<noteq> ''__proto__'' \<Longrightarrow> assignGame k g st = st\<lparr>activeGames := (activeGames st)(k \<mapsto> g)\<rparr>"
  by (simp add: assignGame_def)

lemma ordinaryKey_not_proto: "ordinaryKey k \<Longrightarrow> k \<noteq> ''__proto__''"
  by (auto simp: ordinaryKey_def)


section \<open>What each branch does\<close>

lemma challenge_run:
  assumes "b_type req = APPLICATION_COMMAND" "d_name (b_data req) = Some ''challenge''"
    "b_id req \<noteq> []"
  shows "interactions e req st =
     (case nonEmpty (actingUser req) of
        None \<Rightarrow> (Returned, st\<lparr>trace := trace st @ [Send 400 (ErrorJson ''invalid request'')]\<rparr>)
      | Some u \<Rightarrow>
         (case nonEmpty (firstOf (d_options (b_data req))) of
            None \<Rightarrow> (Returned, st\<lparr>trace := trace st @ [Send 400 (ErrorJson ''invalid request'')]\<rparr>)
          | Some obj \<Rightarrow>
             (Returned, (assignGame (b_id req) \<lparr>ag_id = u, ag_objectName = obj\<rparr> st)
                \<lparr>trace := trace st @ [Send 200 (Message CHANNEL_MESSAGE_WITH_SOURCE
                   (''Rock papers scissors challenge from <@'' @ u @ ''>'') None
                   (Some [ActionRow [Button (''accept_button_'' @ b_id req) ''Accept'' PRIMARY]]))]\<rparr>)))"
  using assms unfolding actingUser_def GUILD_def
  by (simp add: interactions_def command_branch_def challenge_branch_def stmt_defs assignGame_def
      PING_def APPLICATION_COMMAND_def split: option.splits)

lemma accept_run:
  assumes "b_type req = MESSAGE_COMPONENT" "d_custom_id (b_data req) = Some (''accept_button_'' @ g)"
  shows "interactions e req st =
     (Returned, st\<lparr>trace := trace st @
        acceptMenu e g # Request (messageEndpoint e req) DELETE None #
        (case requestError e (messageEndpoint e req) DELETE of
           None \<Rightarrow> []
         | Some err \<Rightarrow> [ConsoleError [LStr ''Error sending message:'', LErr err]])\<rparr>)"
  using assms
  by (simp add: interactions_def component_branch_def accept_branch_def stmt_defs acceptMenu_def
      startsWith_def PING_def APPLICATION_COMMAND_def MESSAGE_COMPONENT_def
      split: option.splits)

lemma select_run:
  assumes "b_type req = MESSAGE_COMPONENT" "d_custom_id (b_data req) = Some (''select_choice_'' @ g)"
  shows "interactions e req st =
     (if \<not> truthyValue (getGame st g) then (Returned, st)
      else
         (case nonEmpty (actingUser req) of
            None \<Rightarrow> (Returned, st\<lparr>trace := trace st @ [Send 400 (ErrorJson ''invalid user'')]\<rparr>)
          | Some u \<Rightarrow>
             (case nonEmpty (firstOf (d_values (b_data req))) of
                None \<Rightarrow> (Returned, st\<lparr>trace := trace st @ [Send 400 (ErrorJson ''invalid choice'')]\<rparr>)
              | Some obj \<Rightarrow>
                 (Returned, st\<lparr>activeGames := (activeGames st)(g := None),
                    trace := trace st @ [Send 200 (Message CHANNEL_MESSAGE_WITH_SOURCE
                       (getResult e (getGame st g) \<lparr>ag_id = u, ag_objectName = obj\<rparr>) None None)]\<rparr>))))"
  using assms unfolding actingUser_def GUILD_def
  by (simp add: interactions_def component_branch_def select_branch_def stmt_defs
      startsWith_def PING_def APPLICATION_COMMAND_def MESSAGE_COMPONENT_def
      split: option.splits)

text \<open>A select interaction for a stored game: the form the rule takes on an own entry.\<close>

lemma select_run_own:
  assumes "b_type req = MESSAGE_COMPONENT" "d_custom_id (b_data req) = Some (''select_choice_'' @ g)"
    "activeGames st g = Some game"
  shows "interactions e req st =
     (case nonEmpty (actingUser req) of
        None \<Rightarrow> (Returned, st\<lparr>trace := trace st @ [Send 400 (ErrorJson ''invalid user'')]\<rparr>)
      | Some u \<Rightarrow>
         (case nonEmpty (firstOf (d_values (b_data req))) of
            None \<Rightarrow> (Returned, st\<lparr>trace := trace st @ [Send 400 (ErrorJson ''invalid choice'')]\<rparr>)
          | Some obj \<Rightarrow>
             (Returned, st\<lparr>activeGames := (activeGames st)(g := None),
                trace := trace st @ [Send 200 (Message CHANNEL_MESSAGE_WITH_SOURCE
                   (getResult e (Game game) \<lparr>ag_id = u, ag_objectName = obj\<rparr>) None None)]\<rparr>)))"
  by (simp add: select_run [OF assms(1,2)] getGame_own [OF assms(3)] split: option.splits)

text \<open>No branch ever issues a \<open>PATCH\<close> request, and the handler only ever adds to the trace.\<close>

lemma select_branch_no_patch:
  "filter isPatch (trace (snd (select_branch e req cid st))) = filter isPatch (trace st)"
  by (simp add: select_branch_def stmt_defs Let_def split: option.splits)

lemma accept_branch_no_patch:
  "filter isPatch (trace (snd (accept_branch e req cid st))) = filter isPatch (trace st)"
  by (simp add: accept_branch_def stmt_defs Let_def split: option.splits)

lemma command_branch_no_patch:
  "filter isPatch (trace (snd (command_branch e req st))) = filter isPatch (trace st)"
  by (simp add: command_branch_def challenge_branch_def stmt_defs assignGame_def Let_def
      split: option.splits)

lemma component_branch_no_patch:
  "filter isPatch (trace (snd (component_branch e req st))) = filter isPatch (trace st)"
proof -
  have seq_ret: "\<And>s. trace (snd (seq s (return_of skip) st)) = trace (snd (s st))"
    by (simp add: stmt_defs split: prod.splits ctl.splits)
  show ?thesis
    unfolding component_branch_def seq_ret
    by (simp add: select_branch_no_patch accept_branch_no_patch skip_def split: option.splits)
qed

lemma interactions_no_patch:
  "filter isPatch (trace (snd (interactions e req st))) = filter isPatch (trace st)"
  by (simp add: interactions_def command_branch_no_patch component_branch_no_patch stmt_defs)

lemma trace_grows: "\<exists>es. trace (snd (interactions e req st)) = trace st @ es"
  by (simp add: interactions_def command_branch_def challenge_branch_def component_branch_def
      accept_branch_def select_branch_def stmt_defs assignGame_def Let_def split: option.splits)


section \<open>The session store: created once, resolved once\<close>

text \<open>
  For an ordinary key \<open>s\<close> the store behaves as a dictionary. A challenge command with
  identifier \<open>s\<close> writes \<open>activeGames[s]\<close>; the first select interaction for \<open>s\<close> whose user
  and choice are present answers with the result computed from exactly that session and
  removes it; any later select interaction for \<open>s\<close> finds nothing, answers nothing and
  leaves the state as it is.
\<close>

lemma create_then_take_once_ordinary:
  assumes "b_type rq1 = APPLICATION_COMMAND" "d_name (b_data rq1) = Some ''challenge''"
    "b_id rq1 = s" "s \<noteq> []" "ordinaryKey s"
    "actingUser rq1 = Some challengerId" "challengerId \<noteq> []"
    "firstOf (d_options (b_data rq1)) = Some choice" "choice \<noteq> []"
    "b_type rq2 = MESSAGE_COMPONENT" "d_custom_id (b_data rq2) = Some (''select_choice_'' @ s)"
    "actingUser rq2 = Some u2" "u2 \<noteq> []"
    "firstOf (d_values (b_data rq2)) = Some c2" "c2 \<noteq> []"
    "b_type rq3 = MESSAGE_COMPONENT" "d_custom_id (b_data rq3) = Some (''select_choice_'' @ s)"
  shows "activeGames (snd (interactions e rq1 st)) s
           = Some \<lparr>ag_id = challengerId, ag_objectName = choice\<rparr>
       \<and> effectsOf e rq2 (snd (interactions e rq1 st))
           = [Send 200 (Message CHANNEL_MESSAGE_WITH_SOURCE
                (getResult e (Game \<lparr>ag_id = challengerId, ag_objectName = choice\<rparr>)
                   \<lparr>ag_id = u2, ag_objectName = c2\<rparr>) None None)]
       \<and> gamesAfter e rq2 (snd (interactions e rq1 st)) s = None
       \<and> interactions e rq3 (snd (interactions e rq2 (snd (interactions e rq1 st))))
           = (Returned, snd (interactions e rq2 (snd (interactions e rq1 st))))"
proof -
  let ?g = "\<lparr>ag_id = challengerId, ag_objectName = choice\<rparr>"
  let ?st1 = "snd (interactions e rq1 st)"
  let ?st2 = "snd (interactions e rq2 ?st1)"
  have id1: "b_id rq1 \<noteq> []"
    using assms(3,4) by simp
  have np: "s \<noteq> ''__proto__''"
    using assms(5) by (rule ordinaryKey_not_proto)
  have created: "activeGames ?st1 s = Some ?g"
    using challenge_run [OF assms(1,2) id1, of e st] assms(3,6-9) np
    by (simp add: nonEmpty_def assignGame_ordinary)
  have first: "interactions e rq2 ?st1 =
     (Returned, ?st1\<lparr>activeGames := (activeGames ?st1)(s := None),
        trace := trace ?st1 @ [Send 200 (Message CHANNEL_MESSAGE_WITH_SOURCE
            (getResult e (Game ?g) \<lparr>ag_id = u2, ag_objectName = c2\<rparr>) None None)]\<rparr>)"
    using select_run_own [OF assms(10,11) created, of e] assms(12-15)
    by (simp add: nonEmpty_def)
  have gone: "activeGames ?st2 s = None"
    by (simp add: first)
  have later: "interactions e rq3 ?st2 = (Returned, ?st2)"
    using select_run [OF assms(16,17), of e ?st2] getGame_ordinary [OF assms(5) gone] by simp
  show ?thesis
    using created gone later by (simp add: obs_defs first)
qed



section \<open>The Outcome Resolver\<close>

text \<open>
  C2. On a well-formed catalog the resolver always answers for two choices of the catalog;
  if \<open>resolve a b\<close> names \<open>a\<close> the winner then \<open>resolve b a\<close> names \<open>a\<close> the winner too; and
  \<open>resolve a a\<close> is a tie.
\<close>

theorem resolve_complementary:
  assumes "wellFormed cat" "a \<in> set (choices cat)" "b \<in> set (choices cat)"
  shows "(\<exists>r. resolve cat a b = Inr r)
       \<and> (\<forall>r. resolve cat a b = Inr r \<and> winner r = Some a
             \<longrightarrow> (\<exists>r'. resolve cat b a = Inr r' \<and> winner r' = Some a))
       \<and> resolve cat a a = Inr \<lparr>winner = None, relation = TIE\<rparr>"
proof -
  have one: "a = b \<or> (beats cat a b \<noteq> beats cat b a)"
    using assms by (auto simp: wellFormed_def list_all_iff)
  show ?thesis
    using one by (auto simp: resolve_def)
qed

theorem resolve_complementary_witness:
  "wellFormed rps
   \<and> resolve rps ''rock'' ''scissors'' = Inr \<lparr>winner = Some ''rock'', relation = WIN\<rparr>
   \<and> resolve rps ''scissors'' ''rock'' = Inr \<lparr>winner = Some ''rock'', relation = LOSE\<rparr>
   \<and> resolve rps ''rock'' ''rock'' = Inr \<lparr>winner = None, relation = TIE\<rparr>"
  using resolve_complementary [of rps "''rock''" "''scissors''"]
  by (simp add: rps_def wellFormed_def resolve_def beats_def)


section \<open>The acting user\<close>

text \<open>
  C3, as the spec words it, fails: in a direct-message context the spec's rule reads the
  member field, which such a request does not carry, while the handler reads the user
  field and records the challenge under that identifier.
\<close>

theorem userId_DM_counterexample:
  "isDM (b_context dmChallengeReq) \<and> b_member dmChallengeReq = None
   \<and> specUserId dmChallengeReq = None
   \<and> b_user dmChallengeReq = Some ''U1''
   \<and> gamesAfter exampleEnv dmChallengeReq emptyState ''m1''
        = Some \<lparr>ag_id = ''U1'', ag_objectName = ''rock''\<rparr>"
  by (simp add: example_defs const_defs isDM_def specUserId_def obs_defs interactions_def
      command_branch_def challenge_branch_def stmt_defs assignGame_def nonEmpty_def firstOf_def)

text \<open>
  C3, amended. In every challenge command and in every select interaction with a live
  session, the acting user's identifier is the member field when the context is 0 (a
  server) and the user field in every other context (direct messages, or no context): the
  handler answers "invalid request" (challenge) or "invalid user" (select) when that field
  is missing or empty, and otherwise records or resolves the game under that identifier.
  The challenge is recorded by the assignment \<open>activeGames[id] = game\<close>: an own property
  under the identifier, or, for the identifier \<^verbatim>\<open>__proto__\<close>, the prototype.
\<close>

theorem userId_context_rule:
  "(b_type req = APPLICATION_COMMAND \<and> d_name (b_data req) = Some ''challenge'' \<and> b_id req \<noteq> [] \<longrightarrow>
      interactions e req st =
       (case nonEmpty (actingUser req) of
          None \<Rightarrow> (Returned, st\<lparr>trace := trace st @ [Send 400 (ErrorJson ''invalid request'')]\<rparr>)
        | Some u \<Rightarrow>
           (case nonEmpty (firstOf (d_options (b_data req))) of
              None \<Rightarrow> (Returned, st\<lparr>trace := trace st @ [Send 400 (ErrorJson ''invalid request'')]\<rparr>)
            | Some obj \<Rightarrow>
               (Returned,
                (if b_id req = ''__proto__'' \<and> activeGames st ''__proto__'' = None
                 then st\<lparr>prototype := Some \<lparr>ag_id = u, ag_objectName = obj\<rparr>\<rparr>
                 else st\<lparr>activeGames := (activeGames st)(b_id req \<mapsto> \<lparr>ag_id = u, ag_objectName = obj\<rparr>)\<rparr>)
                \<lparr>trace := trace st @ [Send 200 (Message CHANNEL_MESSAGE_WITH_SOURCE
                     (''Rock papers scissors challenge from <@'' @ u @ ''>'') None
                     (Some [ActionRow [Button (''accept_button_'' @ b_id req) ''Accept'' PRIMARY]]))]\<rparr>))))
   \<and> (b_type req = MESSAGE_COMPONENT \<and> d_custom_id (b_data req) = Some (''select_choice_'' @ g)
        \<and> activeGames st g = Some game \<longrightarrow>
      interactions e req st =
       (case nonEmpty (actingUser req) of
          None \<Rightarrow> (Returned, st\<lparr>trace := trace st @ [Send 400 (ErrorJson ''invalid user'')]\<rparr>)
        | Some u \<Rightarrow>
           (case nonEmpty (firstOf (d_values (b_data req))) of
              None \<Rightarrow> (Returned, st\<lparr>trace := trace st @ [Send 400 (ErrorJson ''invalid choice'')]\<rparr>)
            | Some obj \<Rightarrow>
               (Returned, st\<lparr>activeGames := (activeGames st)(g := None),
                  trace := trace st @ [Send 200 (Message CHANNEL_MESSAGE_WITH_SOURCE
                     (getResult e (Game game) \<lparr>ag_id = u, ag_objectName = obj\<rparr>) None None)]\<rparr>))))"
proof (intro conjI impI)
  assume h: "b_type req = APPLICATION_COMMAND \<and> d_name (b_data req) = Some ''challenge'' \<and> b_id req \<noteq> []"
  show "interactions e req st =
       (case nonEmpty (actingUser req) of
          None \<Rightarrow> (Returned, st\<lparr>trace := trace st @ [Send 400 (ErrorJson ''invalid request'')]\<rparr>)
        | Some u \<Rightarrow>
           (case nonEmpty (firstOf (d_options (b_data req))) of
              None \<Rightarrow> (Returned, st\<lparr>trace := trace st @ [Send 400 (ErrorJson ''invalid request'')]\<rparr>)
            | Some obj \<Rightarrow>
               (Returned,
                (if b_id req = ''__proto__'' \<and> activeGames st ''__proto__'' = None
                 then st\<lparr>prototype := Some \<lparr>ag_id = u, ag_objectName = obj\<rparr>\<rparr>
                 else st\<lparr>activeGames := (activeGames st)(b_id req \<mapsto> \<lparr>ag_id = u, ag_objectName = obj\<rparr>)\<rparr>)
                \<lparr>trace := trace st @ [Send 200 (Message CHANNEL_MESSAGE_WITH_SOURCE
                     (''Rock papers scissors challenge from <@'' @ u @ ''>'') None
                     (Some [ActionRow [Button (''accept_button_'' @ b_id req) ''Accept'' PRIMARY]]))]\<rparr>)))"
    using h by (auto simp: challenge_run assignGame_def split: option.splits)
next
  assume "b_type req = MESSAGE_COMPONENT \<and> d_custom_id (b_data req) = Some (''select_choice_'' @ g)
        \<and> activeGames st g = Some game"
  then show "interactions e req st =
       (case nonEmpty (actingUser req) of
          None \<Rightarrow> (Returned, st\<lparr>trace := trace st @ [Send 400 (ErrorJson ''invalid user'')]\<rparr>)
        | Some u \<Rightarrow>
           (case nonEmpty (firstOf (d_values (b_data req))) of
              None \<Rightarrow> (Returned, st\<lparr>trace := trace st @ [Send 400 (ErrorJson ''invalid choice'')]\<rparr>)
            | Some obj \<Rightarrow>
               (Returned, st\<lparr>activeGames := (activeGames st)(g := None),
                  trace := trace st @ [Send 200 (Message CHANNEL_MESSAGE_WITH_SOURCE
                     (getResult e (Game game) \<lparr>ag_id = u, ag_objectName = obj\<rparr>) None None)]\<rparr>)))"
    by (simp add: select_run_own)
qed

theorem userId_context_rule_witness:
  "interactions exampleEnv challengeReq emptyState =
     (Returned, \<lparr>activeGames = [''m1'' \<mapsto> \<lparr>ag_id = ''U1'', ag_objectName = ''rock''\<rparr>],
        prototype = None,
        trace = [Send 200 (Message 4 ''Rock papers scissors challenge from <@U1>'' None
                   (Some [ActionRow [Button ''accept_button_m1'' ''Accept'' 1]]))]\<rparr>)
   \<and> interactions exampleEnv dmChallengeReq emptyState =
     (Returned, \<lparr>activeGames = [''m1'' \<mapsto> \<lparr>ag_id = ''U1'', ag_objectName = ''rock''\<rparr>],
        prototype = None,
        trace = [Send 200 (Message 4 ''Rock papers scissors challenge from <@U1>'' None
                   (Some [ActionRow [Button ''accept_button_m1'' ''Accept'' 1]]))]\<rparr>)
   \<and> interactions exampleEnv selectReq stateWithGame =
     (Returned, \<lparr>activeGames = Map.empty, prototype = None,
        trace = [Send 200 (Message 4 ''U1 rock vs U2 scissors'' None None)]\<rparr>)"
  using userId_context_rule [of challengeReq exampleEnv emptyState "''m1''"]
    userId_context_rule [of dmChallengeReq exampleEnv emptyState "''m1''"]
    userId_context_rule [of selectReq exampleEnv stateWithGame "''m1''"
      "\<lparr>ag_id = ''U1'', ag_objectName = ''rock''\<rparr>"]
  by (simp add: example_defs const_defs actingUser_def nonEmpty_def firstOf_def
      CHANNEL_MESSAGE_WITH_SOURCE_def PRIMARY_def)


section \<open>The select interaction\<close>

text \<open>
  C4, as stated, fails: a select interaction for the live game \<open>m1\<close> that carries no user
  is answered with "invalid user", and the game is still in the store afterwards.
\<close>

theorem select_invalid_user_keeps_session:
  "activeGames stateWithGame ''m1'' = Some \<lparr>ag_id = ''U1'', ag_objectName = ''rock''\<rparr>
   \<and> d_custom_id (b_data selectNoUserReq) = Some ''select_choice_m1''
   \<and> effectsOf exampleEnv selectNoUserReq stateWithGame = [Send 400 (ErrorJson ''invalid user'')]
   \<and> gamesAfter exampleEnv selectNoUserReq stateWithGame ''m1''
        = Some \<lparr>ag_id = ''U1'', ag_objectName = ''rock''\<rparr>"
  by (simp add: example_defs const_defs obs_defs interactions_def component_branch_def
      select_branch_def startsWith_def stmt_defs getGame_def nonEmpty_def)

text \<open>
  C4, amended. For a select interaction whose game id has a live session, the session is
  read first and removed only after the responder's identifier and choice have both been
  found: after the answer "invalid user" or "invalid choice" the store is exactly what it
  was (it still holds the session), and when both are present the session is removed.
  The prototype of the store object is never touched.
\<close>

theorem select_validates_before_delete:
  assumes "b_type req = MESSAGE_COMPONENT"
    "d_custom_id (b_data req) = Some (''select_choice_'' @ g)"
    "activeGames st g = Some game"
  shows "(nonEmpty (actingUser req) = None \<longrightarrow>
            effectsOf e req st = [Send 400 (ErrorJson ''invalid user'')]
            \<and> gamesAfter e req st = activeGames st)
       \<and> (nonEmpty (actingUser req) \<noteq> None \<and> nonEmpty (firstOf (d_values (b_data req))) = None \<longrightarrow>
            effectsOf e req st = [Send 400 (ErrorJson ''invalid choice'')]
            \<and> gamesAfter e req st = activeGames st)
       \<and> (nonEmpty (actingUser req) \<noteq> None \<and> nonEmpty (firstOf (d_values (b_data req))) \<noteq> None \<longrightarrow>
            gamesAfter e req st = (activeGames st)(g := None))
       \<and> protoAfter e req st = prototype st"
  by (auto simp: obs_defs select_run_own [OF assms] split: option.splits)

theorem select_validates_before_delete_witness:
  "nonEmpty (actingUser selectNoUserReq) = None
   \<and> effectsOf exampleEnv selectNoUserReq stateWithGame = [Send 400 (ErrorJson ''invalid user'')]
   \<and> gamesAfter exampleEnv selectNoUserReq stateWithGame = activeGames stateWithGame
   \<and> nonEmpty (actingUser selectReq) = Some ''U2''
   \<and> gamesAfter exampleEnv selectReq stateWithGame = Map.empty"
  using select_validates_before_delete [of selectNoUserReq "''m1''" stateWithGame
      "\<lparr>ag_id = ''U1'', ag_objectName = ''rock''\<rparr>" exampleEnv]
    select_validates_before_delete [of selectReq "''m1''" stateWithGame
      "\<lparr>ag_id = ''U1'', ag_objectName = ''rock''\<rparr>" exampleEnv]
  by (simp add: example_defs const_defs actingUser_def nonEmpty_def firstOf_def)

text \<open>
  A select interaction whose game id is an ordinary key with no live session sends no
  response, changes no state and raises no error.
\<close>

lemma select_unknown_game_noop_ordinary:
  assumes "b_type req = MESSAGE_COMPONENT"
    "d_custom_id (b_data req) = Some (''select_choice_'' @ g)"
    "activeGames st g = None" "ordinaryKey g"
  shows "interactions e req st = (Returned, st)"
  by (simp add: select_run [OF assms(1,2)] getGame_ordinary [OF assms(4,3)])



section \<open>The challenge command\<close>

text \<open>
  C6. A challenge command with identifier \<open>m1\<close> from user \<open>U1\<close> choosing \<open>rock\<close> stores the
  session \<open>{id: U1, objectName: rock}\<close> under the key \<open>m1\<close> and answers with one message
  whose accept button has the custom id \<open>accept_button_m1\<close>.
\<close>

theorem challenge_m1_rock:
  assumes "b_type req = APPLICATION_COMMAND" "d_name (b_data req) = Some ''challenge''"
    "b_id req = ''m1''"
    "actingUser req = Some U1" "U1 \<noteq> []"
    "firstOf (d_options (b_data req)) = Some ''rock''"
  shows "gamesAfter e req st = (activeGames st)(''m1'' \<mapsto> \<lparr>ag_id = U1, ag_objectName = ''rock''\<rparr>)
       \<and> effectsOf e req st =
           [Send 200 (Message CHANNEL_MESSAGE_WITH_SOURCE
              (''Rock papers scissors challenge from <@'' @ U1 @ ''>'') None
              (Some [ActionRow [Button ''accept_button_m1'' ''Accept'' PRIMARY]]))]
       \<and> outcomeOf e req st = Returned
       \<and> protoAfter e req st = prototype st"
proof -
  have "b_id req \<noteq> []" using assms(3) by simp
  from challenge_run [OF assms(1,2) this, of e st] assms(3-6)
  show ?thesis by (simp add: obs_defs nonEmpty_def assignGame_def)
qed

theorem challenge_m1_rock_witness:
  "actingUser challengeReq = Some ''U1''
   \<and> gamesAfter exampleEnv challengeReq emptyState
        = [''m1'' \<mapsto> \<lparr>ag_id = ''U1'', ag_objectName = ''rock''\<rparr>]
   \<and> effectsOf exampleEnv challengeReq emptyState =
        [Send 200 (Message 4 ''Rock papers scissors challenge from <@U1>'' None
           (Some [ActionRow [Button ''accept_button_m1'' ''Accept'' 1]]))]"
  using challenge_m1_rock [of challengeReq "''U1''" exampleEnv emptyState]
  by (simp add: example_defs const_defs actingUser_def firstOf_def
      CHANNEL_MESSAGE_WITH_SOURCE_def PRIMARY_def)


section \<open>The accept interaction\<close>

text \<open>
  C7. An accept interaction with custom id \<open>accept_button_m1\<close> answers with an ephemeral
  menu whose custom id is \<open>select_choice_m1\<close> and whose options are the catalog's choices
  in some order; the store is left as it was; the deletion of the public message is
  requested, and when it fails the failure is logged, no further response is sent, and
  the handler still returns normally with the store untouched.
\<close>

theorem accept_m1_menu:
  assumes "b_type req = MESSAGE_COMPONENT"
    "d_custom_id (b_data req) = Some ''accept_button_m1''"
  shows "gamesAfter e req st = activeGames st
       \<and> outcomeOf e req st = Returned
       \<and> (\<exists>opts. mset opts = mset (choices (gameCatalog e))
            \<and> effectsOf e req st =
                Send 200 (Message CHANNEL_MESSAGE_WITH_SOURCE ''What is your object of choice?''
                  (Some EPHEMERAL) (Some [ActionRow [StringSelect ''select_choice_m1'' opts]]))
                # Request (messageEndpoint e req) DELETE None
                # (case requestError e (messageEndpoint e req) DELETE of
                     None \<Rightarrow> []
                   | Some err \<Rightarrow> [ConsoleError [LStr ''Error sending message:'', LErr err]]))
       \<and> protoAfter e req st = prototype st"
proof -
  have cid: "d_custom_id (b_data req) = Some (''accept_button_'' @ ''m1'')"
    using assms(2) by simp
  have perm: "mset (getShuffledOptions (draws e) (gameCatalog e)) = mset (choices (gameCatalog e))"
    by (simp add: getShuffledOptions_def mset_shuffle)
  show ?thesis
    using perm
    by (simp add: obs_defs accept_run [OF assms(1) cid] acceptMenu_def)
qed

theorem accept_m1_menu_witness:
  "gamesAfter failingEnv acceptReq stateWithGame = activeGames stateWithGame
   \<and> outcomeOf failingEnv acceptReq stateWithGame = Returned
   \<and> effectsOf failingEnv acceptReq stateWithGame =
       [Send 200 (Message 4 ''What is your object of choice?'' (Some 64)
          (Some [ActionRow [StringSelect ''select_choice_m1'' [''paper'', ''scissors'', ''rock'']]])),
        Request ''webhooks/app/tok/messages/msg1'' DELETE None,
        ConsoleError [LStr ''Error sending message:'', LErr ''404'']]"
  using accept_m1_menu [of acceptReq failingEnv stateWithGame]
  by (simp add: example_defs const_defs obs_defs accept_run [of _ "''m1''"] acceptMenu_def
      messageEndpoint_def str_def getShuffledOptions_def rps_def insertAt_def
      CHANNEL_MESSAGE_WITH_SOURCE_def EPHEMERAL_def)

text \<open>
  The accept branch never consults the store: its effects and its outcome are the same
  from any two states, it leaves the store object as it was, and its first effect is the
  ephemeral menu bound to the game id of the button, whether or not a session exists for
  that id. When the id is an ordinary key with no session, a select interaction for it
  then returns without any effect.
\<close>

lemma accept_never_consults_store:
  assumes "b_type req = MESSAGE_COMPONENT"
    "d_custom_id (b_data req) = Some (''accept_button_'' @ g)"
    "b_type rq2 = MESSAGE_COMPONENT"
    "d_custom_id (b_data rq2) = Some (''select_choice_'' @ g)"
  shows "effectsOf e req st = effectsOf e req st'
       \<and> outcomeOf e req st = outcomeOf e req st'
       \<and> gamesAfter e req st = activeGames st
       \<and> protoAfter e req st = prototype st
       \<and> take 1 (effectsOf e req st) = [acceptMenu e g]
       \<and> (activeGames st g = None \<and> ordinaryKey g \<longrightarrow>
            interactions e rq2 (snd (interactions e req st)) = (Returned, snd (interactions e req st)))"
proof -
  have "getGame (st\<lparr>trace := t\<rparr>) g = getGame st g" for t
    by (simp add: getGame_def split: option.splits)
  then show ?thesis
    by (auto simp: obs_defs accept_run [OF assms(1,2)] select_run [OF assms(3,4)] getGame_ordinary)
qed



section \<open>The catch-all branches\<close>

text \<open>
  C8, as stated, fails: a component interaction whose custom id \<open>foo\<close> has neither prefix
  gets no response at all; the handler returns without any effect.
\<close>

theorem unknown_component_prefix_no_response:
  "b_type unknownComponentReq = MESSAGE_COMPONENT
   \<and> d_custom_id (b_data unknownComponentReq) = Some ''foo''
   \<and> \<not> startsWith ''foo'' ''accept_button_'' \<and> \<not> startsWith ''foo'' ''select_choice_''
   \<and> effectsOf exampleEnv unknownComponentReq stateWithGame = []
   \<and> outcomeOf exampleEnv unknownComponentReq stateWithGame = Returned"
  by (simp add: example_defs const_defs obs_defs interactions_def component_branch_def
      startsWith_def stmt_defs)

text \<open>
  C8, amended. An interaction of unknown type is logged and answered with status 400 and
  the error "unknown interaction type"; a command whose name is neither "test" nor
  "challenge" (or a "challenge" with an empty identifier) is logged and answered with
  status 400 and the error "unknown command". Neither changes the store. A component
  interaction whose custom id is absent or has neither prefix is not answered: the
  handler returns with no effect.
\<close>

theorem unknown_event_responses:
  "(b_type req \<noteq> PING \<and> b_type req \<noteq> APPLICATION_COMMAND \<and> b_type req \<noteq> MESSAGE_COMPONENT \<longrightarrow>
      interactions e req st =
        (Returned, st\<lparr>trace := trace st @
           [ConsoleError [LStr ''unknown interaction type'', LNum (b_type req)],
            Send 400 (ErrorJson ''unknown interaction type'')]\<rparr>))
   \<and> (b_type req = APPLICATION_COMMAND \<and> d_name (b_data req) \<noteq> Some ''test''
        \<and> (d_name (b_data req) \<noteq> Some ''challenge'' \<or> b_id req = []) \<longrightarrow>
      interactions e req st =
        (Returned, st\<lparr>trace := trace st @
           [ConsoleError [LStr (''unknown command: '' @ str (d_name (b_data req)))],
            Send 400 (ErrorJson ''unknown command'')]\<rparr>))
   \<and> (b_type req = MESSAGE_COMPONENT
        \<and> (case d_custom_id (b_data req) of
              None \<Rightarrow> True
            | Some cid \<Rightarrow> \<not> startsWith cid ''accept_button_'' \<and> \<not> startsWith cid ''select_choice_'') \<longrightarrow>
      interactions e req st = (Returned, st))"
proof (intro conjI impI)
  assume "b_type req \<noteq> PING \<and> b_type req \<noteq> APPLICATION_COMMAND \<and> b_type req \<noteq> MESSAGE_COMPONENT"
  then show "interactions e req st =
        (Returned, st\<lparr>trace := trace st @
           [ConsoleError [LStr ''unknown interaction type'', LNum (b_type req)],
            Send 400 (ErrorJson ''unknown interaction type'')]\<rparr>)"
    by (simp add: interactions_def stmt_defs)
next
  assume "b_type req = APPLICATION_COMMAND \<and> d_name (b_data req) \<noteq> Some ''test''
        \<and> (d_name (b_data req) \<noteq> Some ''challenge'' \<or> b_id req = [])"
  then show "interactions e req st =
        (Returned, st\<lparr>trace := trace st @
           [ConsoleError [LStr (''unknown command: '' @ str (d_name (b_data req)))],
            Send 400 (ErrorJson ''unknown command'')]\<rparr>)"
    by (auto simp: interactions_def command_branch_def stmt_defs const_defs)
next
  assume "b_type req = MESSAGE_COMPONENT
        \<and> (case d_custom_id (b_data req) of
              None \<Rightarrow> True
            | Some cid \<Rightarrow> \<not> startsWith cid ''accept_button_'' \<and> \<not> startsWith cid ''select_choice_'')"
  then show "interactions e req st = (Returned, st)"
    by (auto simp: interactions_def component_branch_def stmt_defs const_defs
        split: option.splits)
qed

theorem unknown_event_responses_witness:
  "interactions exampleEnv unknownTypeReq emptyState =
     (Returned, \<lparr>activeGames = Map.empty, prototype = None, trace =
        [ConsoleError [LStr ''unknown interaction type'', LNum 9],
         Send 400 (ErrorJson ''unknown interaction type'')]\<rparr>)
   \<and> interactions exampleEnv unknownCommandReq emptyState =
     (Returned, \<lparr>activeGames = Map.empty, prototype = None, trace =
        [ConsoleError [LStr ''unknown command: dance''],
         Send 400 (ErrorJson ''unknown command'')]\<rparr>)
   \<and> interactions exampleEnv unknownComponentReq stateWithGame = (Returned, stateWithGame)"
  using unknown_event_responses [of unknownTypeReq exampleEnv emptyState]
    unknown_event_responses [of unknownCommandReq exampleEnv emptyState]
    unknown_event_responses [of unknownComponentReq exampleEnv stateWithGame]
  by (simp add: example_defs const_defs str_def startsWith_def)


section \<open>The follow-up edit\<close>

text \<open>
  C9. No call of the handler, on any request, in any state and environment, issues a
  \<open>PATCH\<close> request: in the select branch the handler returns with the result response, its
  only effect, before the follow-up call is reached.
\<close>

theorem select_followup_unreachable:
  "filter isPatch (effectsOf e req st) = []
   \<and> (b_type req = MESSAGE_COMPONENT \<and> d_custom_id (b_data req) = Some (''select_choice_'' @ g)
        \<and> activeGames st g = Some game \<and> nonEmpty (actingUser req) = Some u
        \<and> nonEmpty (firstOf (d_values (b_data req))) = Some obj \<longrightarrow>
      outcomeOf e req st = Returned
      \<and> effectsOf e req st =
          [Send 200 (Message CHANNEL_MESSAGE_WITH_SOURCE
             (getResult e (Game game) \<lparr>ag_id = u, ag_objectName = obj\<rparr>) None None)])"
proof
  obtain es where es: "trace (snd (interactions e req st)) = trace st @ es"
    using trace_grows by blast
  have "filter isPatch (trace st @ es) = filter isPatch (trace st)"
    using interactions_no_patch [of e req st] es by simp
  then have "filter isPatch es = []" by simp
  then show "filter isPatch (effectsOf e req st) = []"
    by (simp add: effectsOf_def es)
next
  show "b_type req = MESSAGE_COMPONENT \<and> d_custom_id (b_data req) = Some (''select_choice_'' @ g)
        \<and> activeGames st g = Some game \<and> nonEmpty (actingUser req) = Some u
        \<and> nonEmpty (firstOf (d_values (b_data req))) = Some obj \<longrightarrow>
      outcomeOf e req st = Returned
      \<and> effectsOf e req st =
          [Send 200 (Message CHANNEL_MESSAGE_WITH_SOURCE
             (getResult e (Game game) \<lparr>ag_id = u, ag_objectName = obj\<rparr>) None None)]"
    by (simp add: obs_defs select_run_own)
qed

theorem select_followup_unreachable_witness:
  "filter isPatch (effectsOf exampleEnv selectReq stateWithGame) = []
   \<and> outcomeOf exampleEnv selectReq stateWithGame = Returned
   \<and> effectsOf exampleEnv selectReq stateWithGame
       = [Send 200 (Message 4 ''U1 rock vs U2 scissors'' None None)]"
  using select_followup_unreachable [of exampleEnv selectReq stateWithGame "''m1''"
      "\<lparr>ag_id = ''U1'', ag_objectName = ''rock''\<rparr>" "''U2''" "''scissors''"]
  by (simp add: example_defs const_defs actingUser_def nonEmpty_def firstOf_def
      CHANNEL_MESSAGE_WITH_SOURCE_def)

end
